theory Spec2Isabelle
  imports Main "HOL-Library.AList"
begin

section \<open>Values, objects and responses\<close>

text \<open>
  The controller \<^verbatim>\<open>src/controllers/authController.ts\<close> works on JavaScript objects: the
  request body, the rows of the \<^verbatim>\<open>User\<close> table and the JSON payloads it answers with.
  A field of a body or of a row is a scalar; an object is an association list, in key
  order; reading a key that is absent gives \<^verbatim>\<open>undefined\<close>, which is \<open>None\<close> here.
  A payload is an object whose fields are scalars or (for \<^verbatim>\<open>user\<close>) a row.
\<close>

datatype val = Null | Bool bool | Num int | Str string

type_synonym obj = "(string \<times> val) list"

datatype json = Scalar val | Object obj

record response =
  status :: nat
  content :: "(string \<times> json) list"

text \<open>An object literal: a key whose value is \<^verbatim>\<open>undefined\<close> is not kept.\<close>

fun object :: "(string \<times> val option) list \<Rightarrow> obj" where
  "object [] = []"
| "object ((k, None) # kvs) = object kvs"
| "object ((k, Some v) # kvs) = (k, v) # object kvs"

text \<open>\<^verbatim>\<open>!x\<close>: the values JavaScript takes for false.\<close>

fun falsy :: "val option \<Rightarrow> bool" where
  "falsy None = True"
| "falsy (Some Null) = True"
| "falsy (Some (Bool b)) = (\<not> b)"
| "falsy (Some (Num n)) = (n = 0)"
| "falsy (Some (Str s)) = (s = [])"

text \<open>
  \<^verbatim>\<open>trim()\<close> and \<^verbatim>\<open>toLowerCase()\<close> on ASCII text: the white space stripped is space, tab,
  line feed, vertical tab, form feed and carriage return; the letters folded are A to Z.
\<close>

definition is_space :: "char \<Rightarrow> bool" where
  "is_space c = (c \<in> set [CHR '' '', CHR 0x09, CHR 0x0A, CHR 0x0B, CHR 0x0C, CHR 0x0D])"

definition trim :: "string \<Rightarrow> string" where
  "trim s = rev (dropWhile is_space (rev (dropWhile is_space s)))"

definition lower_char :: "char \<Rightarrow> char" where
  "lower_char c =
     (case map_of (zip ''ABCDEFGHIJKLMNOPQRSTUVWXYZ'' ''abcdefghijklmnopqrstuvwxyz'') c of
        None \<Rightarrow> c
      | Some l \<Rightarrow> l)"

definition toLowerCase :: "string \<Rightarrow> string" where
  "toLowerCase s = map lower_char s"

text \<open>A key occurs in a payload: at the top, or inside a nested object.\<close>

fun has_field_json :: "string \<Rightarrow> json \<Rightarrow> bool" where
  "has_field_json k (Scalar v) = False"
| "has_field_json k (Object ob) = (k \<in> fst ` set ob)"

definition has_field :: "string \<Rightarrow> (string \<times> json) list \<Rightarrow> bool" where
  "has_field k p = (k \<in> fst ` set p \<or> list_ex (\<lambda>kv. has_field_json k (snd kv)) p)"

section \<open>Exceptions\<close>

text \<open>
  What the controller's collaborators throw. \<open>message\<close> is \<^verbatim>\<open>error.message\<close>; the texts
  are the libraries', shortened.
\<close>

datatype exn =
    TypeError
  | IllegalArguments
  | InvalidWhere string
  | UniqueConstraintError
  | DatabaseError
  | JsonWebTokenError
  | SignError
  | HeadersSent

fun message :: "exn \<Rightarrow> string" where
  "message TypeError = ''Cannot read properties of undefined''"
| "message IllegalArguments = ''Illegal arguments''"
| "message (InvalidWhere k) = ''WHERE parameter '' @ k @ '' has invalid undefined value''"
| "message UniqueConstraintError = ''Validation error''"
| "message DatabaseError = ''invalid input value for enum''"
| "message JsonWebTokenError = ''jwt malformed''"
| "message SignError = ''Bad options''"
| "message HeadersSent = ''Cannot set headers after they are sent to the client''"

section \<open>The User table\<close>

text \<open>
  Modelled from the spec: the model \<^verbatim>\<open>../models/User\<close> the controller imports is not among
  the sources. The spec's User Record Store keeps one record per user, with a fixed set
  of attributes (section 3): an opaque unique \<open>id\<close>, a unique \<open>email\<close>, a \<open>name\<close>, the
  password hash, a \<open>role\<close> that is one of an enumeration and has a default, and the
  current refresh token; \<open>create\<close> fails on a conflict. The attributes are named here as
  the controller reads them. The enumerated roles and the default role are not in the
  sources: they are parameters of the table, which is otherwise the list of its rows and
  the next identifier to give out.
\<close>

record store =
  rows :: "obj list"
  next_id :: int
  roles :: "string list"
  default_role :: string

definition user_attributes :: "string list" where
  "user_attributes = [''id'', ''name'', ''email'', ''password'', ''role'', ''refreshToken'']"

text \<open>
  \<^verbatim>\<open>User.findOne({ where: { email } })\<close>: the first row with that email; a \<^verbatim>\<open>where\<close> value
  that is \<^verbatim>\<open>undefined\<close> is refused with an error.
\<close>

definition User_findOne :: "store \<Rightarrow> val option \<Rightarrow> exn + obj option" where
  "User_findOne st email =
     (case email of
        None \<Rightarrow> Inl (InvalidWhere ''email'')
      | Some v \<Rightarrow> Inr (find (\<lambda>r. map_of r ''email'' = Some v) (rows st)))"

text \<open>\<^verbatim>\<open>User.findByPk(id)\<close>: \<^verbatim>\<open>null\<close> for an \<^verbatim>\<open>undefined\<close> or \<^verbatim>\<open>null\<close> key.\<close>

definition User_findByPk :: "store \<Rightarrow> val option \<Rightarrow> obj option" where
  "User_findByPk st pk =
     (case pk of
        None \<Rightarrow> None
      | Some Null \<Rightarrow> None
      | Some v \<Rightarrow> find (\<lambda>r. map_of r ''id'' = Some v) (rows st))"

text \<open>
  \<^verbatim>\<open>User.create(values)\<close>: the row has the attributes of the record and no other key. An
  attribute takes its value from the values when they carry it; otherwise the \<open>id\<close> is
  fresh, the \<open>role\<close> is the default one and any other attribute is \<^verbatim>\<open>null\<close>. A role
  outside the enumeration is refused, and a row whose \<open>id\<close> or \<open>email\<close> is already in
  the table violates a uniqueness constraint.
\<close>

definition initial :: "store \<Rightarrow> string \<Rightarrow> val" where
  "initial st k =
     (if k = ''id'' then Num (next_id st)
      else if k = ''role'' then Str (default_role st)
      else Null)"

definition new_row :: "store \<Rightarrow> obj \<Rightarrow> obj" where
  "new_row st values =
     map (\<lambda>k. (k, case map_of values k of None \<Rightarrow> initial st k | Some v \<Rightarrow> v)) user_attributes"

definition role_ok :: "store \<Rightarrow> obj \<Rightarrow> bool" where
  "role_ok st values =
     (case map_of values ''role'' of
        None \<Rightarrow> True
      | Some (Str r) \<Rightarrow> r \<in> set (roles st)
      | Some _ \<Rightarrow> False)"

definition conflicts :: "obj \<Rightarrow> obj \<Rightarrow> bool" where
  "conflicts row r =
     (map_of r ''id'' = map_of row ''id'' \<or>
      (map_of row ''email'' \<noteq> None \<and> map_of row ''email'' \<noteq> Some Null \<and>
       map_of r ''email'' = map_of row ''email''))"

definition User_create :: "store \<Rightarrow> obj \<Rightarrow> exn + (obj \<times> store)" where
  "User_create st values =
     (let row = new_row st values in
      if role_ok st values
      then (if list_ex (conflicts row) (rows st) then Inl UniqueConstraintError
            else Inr (row, st\<lparr>rows := rows st @ [row], next_id := next_id st + 1\<rparr>))
      else Inl DatabaseError)"

text \<open>
  \<^verbatim>\<open>User.update(values, { where: { id } })\<close>: the values are written over every row with
  that id; the result is the array holding the number of rows touched. The controller
  only ever updates the refresh token, and writes it under two spellings; which one the
  model declares is not in the sources, so a row keeps the token under the key the
  controller wrote: the two spellings are two keys.
\<close>

definition User_update :: "store \<Rightarrow> obj \<Rightarrow> val option \<Rightarrow> exn + (nat \<times> store)" where
  "User_update st values pk =
     (case pk of
        None \<Rightarrow> Inl (InvalidWhere ''id'')
      | Some v \<Rightarrow>
          Inr (length (filter (\<lambda>r. map_of r ''id'' = Some v) (rows st)),
               st\<lparr>rows := map (\<lambda>r. if map_of r ''id'' = Some v then AList.merge r values else r)
                              (rows st)\<rparr>))"

text \<open>
  \<^verbatim>\<open>User.findOrCreate({ where: { email }, defaults })\<close>: the row found, or the row created
  from the defaults, and whether it was created.
\<close>

definition User_findOrCreate ::
  "store \<Rightarrow> val option \<Rightarrow> obj \<Rightarrow> exn + ((obj option \<times> bool) \<times> store)" where
  "User_findOrCreate st email defaults =
     (case User_findOne st email of
        Inl e \<Rightarrow> Inl e
      | Inr (Some r) \<Rightarrow> Inr ((Some r, False), st)
      | Inr None \<Rightarrow>
          (case User_create st defaults of
             Inl e \<Rightarrow> Inl e
           | Inr (r, st') \<Rightarrow> Inr ((Some r, True), st')))"

section \<open>Hashing and tokens\<close>

text \<open>
  The libraries and the helper the controller calls are parameters: \<^verbatim>\<open>bcrypt.hash(p, 10)\<close>
  (with the salt it draws), \<^verbatim>\<open>bcrypt.compare\<close>, \<^verbatim>\<open>jwt.verify\<close> under the refresh secret
  (\<open>None\<close> when it throws) and \<^verbatim>\<open>generateTokens\<close> of \<^verbatim>\<open>../helper\<close>, which is not among
  the sources: for a claim set it gives the access and the refresh token, or it throws.
\<close>

record env =
  bcrypt_hash :: "string \<Rightarrow> string"
  bcrypt_compare :: "string \<Rightarrow> string \<Rightarrow> bool"
  jwt_verify :: "string \<Rightarrow> obj option"
  generateTokens :: "obj \<Rightarrow> exn + string \<times> string"

text \<open>bcryptjs refuses arguments that are not strings.\<close>

definition hash_password :: "env \<Rightarrow> val option \<Rightarrow> exn + string" where
  "hash_password env password =
     (case password of
        Some (Str p) \<Rightarrow> Inr (bcrypt_hash env p)
      | _ \<Rightarrow> Inl IllegalArguments)"

definition compare_password :: "env \<Rightarrow> val option \<Rightarrow> val option \<Rightarrow> exn + bool" where
  "compare_password env password stored =
     (case (password, stored) of
        (Some (Str p), Some (Str h)) \<Rightarrow> Inr (bcrypt_compare env p h)
      | _ \<Rightarrow> Inl IllegalArguments)"

text \<open>\<^verbatim>\<open>jwt.verify\<close> throws on a token that is absent, empty or not a string.\<close>

definition verify :: "env \<Rightarrow> val option \<Rightarrow> exn + obj" where
  "verify env token =
     (case token of
        Some (Str t) \<Rightarrow>
          (if t = [] then Inl JsonWebTokenError
           else (case jwt_verify env t of
                   None \<Rightarrow> Inl JsonWebTokenError
                 | Some p \<Rightarrow> Inr p))
      | _ \<Rightarrow> Inl JsonWebTokenError)"

section \<open>What a handler leaves behind\<close>

text \<open>
  A handler ends with the table as it left it, the response the client received (the
  first one sent, if any), the calls it made to the table and to the token codec, in
  order, and the exception its promise was rejected with, if it was.
\<close>

datatype call =
    FindOne "val option"
  | FindByPk "val option"
  | FindOrCreate "val option" obj
  | Create obj
  | Update obj "val option"
  | JwtVerify "val option"
  | GenerateTokens obj

fun is_write :: "call \<Rightarrow> bool" where
  "is_write (Create _) = True"
| "is_write (Update _ _) = True"
| "is_write (FindOrCreate _ _) = True"
| "is_write _ = False"

fun is_lookup :: "call \<Rightarrow> bool" where
  "is_lookup (FindOne _) = True"
| "is_lookup (FindByPk _) = True"
| "is_lookup (FindOrCreate _ _) = True"
| "is_lookup _ = False"

record outcome =
  db :: store
  sent :: "response option"
  calls :: "call list"
  rejected :: "exn option"

text \<open>
  \<^verbatim>\<open>res.status(code).json(body)\<close>: the first call sends the response; a later one throws,
  the headers being sent already.
\<close>

definition send :: "nat \<Rightarrow> (string \<times> json) list \<Rightarrow> response option \<Rightarrow> exn + response option" where
  "send code body res =
     (case res of
        None \<Rightarrow> Inr (Some \<lparr>status = code, content = body\<rparr>)
      | Some _ \<Rightarrow> Inl HeadersSent)"

definition reply :: "store \<Rightarrow> call list \<Rightarrow> nat \<Rightarrow> (string \<times> json) list \<Rightarrow> outcome" where
  "reply st cs code body =
     \<lparr>db = st, sent = Some \<lparr>status = code, content = body\<rparr>, calls = cs, rejected = None\<rparr>"

definition reject :: "store \<Rightarrow> call list \<Rightarrow> exn \<Rightarrow> outcome" where
  "reject st cs e = \<lparr>db = st, sent = None, calls = cs, rejected = Some e\<rparr>"

section \<open>The handlers\<close>

subsection \<open>register\<close>

text \<open>
  Lines 13 to 17 run before the \<^verbatim>\<open>try\<close>: an email that is not a string makes
  \<^verbatim>\<open>userData.email.trim()\<close> throw, a password that is not a string makes \<^verbatim>\<open>bcrypt.hash\<close>
  reject, and the handler's promise is rejected with no response sent. Inside the
  \<^verbatim>\<open>try\<close>, every exception is answered with status 500.

  Between the existence check and the create the handler is suspended, and other
  requests may write to the table: \<open>others\<close> is what they do to it in that window.
  \<open>register\<close> is the handler running alone.
\<close>

text \<open>
  The object literal of lines 30 to 34, \<^verbatim>\<open>{ ...userData, email, password: hashedPassword }\<close>:
  the body, with its email and its password overwritten.
\<close>

definition created_values :: "obj \<Rightarrow> string \<Rightarrow> string \<Rightarrow> obj" where
  "created_values userData email hashedPassword =
     AList.update ''password'' (Str hashedPassword) (AList.update ''email'' (Str email) userData)"

definition register_with :: "(store \<Rightarrow> store) \<Rightarrow> env \<Rightarrow> store \<Rightarrow> obj \<Rightarrow> outcome" where
  "register_with others env st userData =
     (case map_of userData ''email'' of
        Some (Str e) \<Rightarrow>
          (let email = toLowerCase (trim e) in
           case hash_password env (map_of userData ''password'') of
             Inl ex \<Rightarrow> reject st [] ex
           | Inr hashedPassword \<Rightarrow>
               (case User_findOne st (Some (Str email)) of
                  Inl ex \<Rightarrow>
                    reply st [FindOne (Some (Str email))] 500
                      [(''error'', Scalar (Str ''An error occurred while creating the user''))]
                | Inr (Some userExists) \<Rightarrow>
                    reply st [FindOne (Some (Str email))] 400
                      [(''error'', Scalar (Str ''User with this email already exists''))]
                | Inr None \<Rightarrow>
                    (let st1 = others st;
                         values = created_values userData email hashedPassword;
                         cs = [FindOne (Some (Str email)), Create values]
                     in case User_create st1 values of
                          Inl ex \<Rightarrow>
                            reply st1 cs 500
                              [(''error'', Scalar (Str ''An error occurred while creating the user''))]
                        | Inr (result, st2) \<Rightarrow>
                            reply st2 cs 201
                              [(''message'', Scalar (Str ''User created successfully'')),
                               (''user'', Object (AList.delete ''password'' result))])))
      | _ \<Rightarrow> reject st [] TypeError)"

definition register :: "env \<Rightarrow> store \<Rightarrow> obj \<Rightarrow> outcome" where
  "register = register_with (\<lambda>st. st)"

subsection \<open>login\<close>

text \<open>
  The email of the body goes to the lookup as it is. \<^verbatim>\<open>User.update\<close> answers with an
  array, which is never false, so the branch \<^verbatim>\<open>if (!result)\<close> of line 93 is not taken.
  An exception is answered with status 400 and its message.
\<close>

definition login :: "env \<Rightarrow> store \<Rightarrow> obj \<Rightarrow> outcome" where
  "login env st body =
     (let email = map_of body ''email'';
          password = map_of body ''password''
      in case User_findOne st email of
           Inl ex \<Rightarrow> reply st [FindOne email] 400 [(''error'', Scalar (Str (message ex)))]
         | Inr None \<Rightarrow> reply st [FindOne email] 404 [(''error'', Scalar (Str ''User not found''))]
         | Inr (Some user) \<Rightarrow>
             (case compare_password env password (map_of user ''password'') of
                Inl ex \<Rightarrow> reply st [FindOne email] 400 [(''error'', Scalar (Str (message ex)))]
              | Inr passwordMatch \<Rightarrow>
                  if \<not> passwordMatch
                  then reply st [FindOne email] 401 [(''error'', Scalar (Str ''Invalid credentials''))]
                  else
                    (let userData = AList.delete ''password'' user;
                         userForToken = object
                           [(''id'', map_of userData ''id''), (''name'', map_of userData ''name''),
                            (''email'', map_of userData ''email''), (''role'', map_of userData ''role'')];
                         cs0 = [FindOne email, GenerateTokens userForToken]
                     in case generateTokens env userForToken of
                          Inl ex \<Rightarrow> reply st cs0 400 [(''error'', Scalar (Str (message ex)))]
                        | Inr (accessToken, refreshToken) \<Rightarrow>
                            (let values = [(''refresh_token'', Str refreshToken)];
                                 cs = cs0 @ [Update values (map_of user ''id'')]
                             in case User_update st values (map_of user ''id'') of
                                  Inl ex \<Rightarrow>
                                    reply st cs 400 [(''error'', Scalar (Str (message ex)))]
                                | Inr (result, st') \<Rightarrow>
                                    reply st' cs 200
                                      [(''message'', Scalar (Str ''Login successful'')),
                                       (''accessToken'', Scalar (Str accessToken)),
                                       (''refreshToken'', Scalar (Str refreshToken))]))))"

subsection \<open>socialLogin\<close>

text \<open>
  \<^verbatim>\<open>findOrCreate\<close> always answers with a row, so the \<^verbatim>\<open>User.create\<close> of line 120 is
  reached only if it did not.
\<close>

definition socialLogin :: "env \<Rightarrow> store \<Rightarrow> obj \<Rightarrow> outcome" where
  "socialLogin env st body =
     (let email = map_of body ''email'';
          name = map_of body ''name'';
          defaults = object [(''name'', name), (''email'', email)];
          cs0 = [FindOrCreate email defaults]
      in case User_findOrCreate st email defaults of
           Inl ex \<Rightarrow> reply st cs0 400 [(''error'', Scalar (Str (message ex)))]
         | Inr ((found, created), st1) \<Rightarrow>
             (case (case found of
                      Some u \<Rightarrow> Inr (u, st1, cs0)
                    | None \<Rightarrow>
                        (case User_create st1 defaults of
                           Inl ex \<Rightarrow> Inl ex
                         | Inr (u, st2) \<Rightarrow> Inr (u, st2, cs0 @ [Create defaults]))) of
                Inl ex \<Rightarrow>
                  reply st1 (cs0 @ [Create defaults]) 400 [(''error'', Scalar (Str (message ex)))]
              | Inr (user, st2, cs1) \<Rightarrow>
                  (let userForToken = object
                         [(''id'', map_of user ''id''), (''name'', map_of user ''name''),
                          (''email'', map_of user ''email''), (''role'', map_of user ''role'')];
                       cs2 = cs1 @ [GenerateTokens userForToken]
                   in case generateTokens env userForToken of
                        Inl ex \<Rightarrow> reply st2 cs2 400 [(''error'', Scalar (Str (message ex)))]
                      | Inr (accessToken, refreshToken) \<Rightarrow>
                          (let values = [(''refreshToken'', Str refreshToken)];
                               cs = cs2 @ [Update values (map_of user ''id'')]
                           in case User_update st2 values (map_of user ''id'') of
                                Inl ex \<Rightarrow>
                                  reply st2 cs 400 [(''error'', Scalar (Str (message ex)))]
                              | Inr (result, st3) \<Rightarrow>
                                  reply st3 cs 200
                                    [(''message'', Scalar (Str ''Login successful'')),
                                     (''accessToken'', Scalar (Str accessToken)),
                                     (''refreshToken'', Scalar (Str refreshToken))]))))"

subsection \<open>refreshToken\<close>

text \<open>
  Neither \<^verbatim>\<open>if\<close> of this handler returns after it has answered (lines 147 and 160):
  the handler goes on with the response \<open>res\<close> already sent. \<open>refresh_try\<close> is the body
  of the \<^verbatim>\<open>try\<close>; its \<open>rejected\<close> is the exception thrown there, which the \<^verbatim>\<open>catch\<close>
  of \<open>refreshToken\<close> answers with status 403, unless a response has been sent, in which
  case that answer throws in turn.
\<close>

definition refresh_try :: "env \<Rightarrow> store \<Rightarrow> val option \<Rightarrow> response option \<Rightarrow> outcome" where
  "refresh_try env st token res =
     (case verify env token of
        Inl ex \<Rightarrow> \<lparr>db = st, sent = res, calls = [JwtVerify token], rejected = Some ex\<rparr>
      | Inr payload \<Rightarrow>
          (let pid = map_of payload ''id'';
               result = User_findByPk st pid;
               storedToken = (case result of None \<Rightarrow> None | Some r \<Rightarrow> map_of r ''refreshToken'');
               cs1 = [JwtVerify token, FindByPk pid]
           in case (if storedToken \<noteq> token
                    then send 403 [(''message'', Scalar (Str ''Invalid refresh token''))] res
                    else Inr res) of
                Inl ex \<Rightarrow> \<lparr>db = st, sent = res, calls = cs1, rejected = Some ex\<rparr>
              | Inr res1 \<Rightarrow>
                  (case generateTokens env payload of
                     Inl ex \<Rightarrow>
                       \<lparr>db = st, sent = res1, calls = cs1 @ [GenerateTokens payload],
                        rejected = Some ex\<rparr>
                   | Inr (accessToken, newRefreshToken) \<Rightarrow>
                       (let values = [(''refreshToken'', Str newRefreshToken)];
                            cs2 = cs1 @ [GenerateTokens payload, Update values pid]
                        in case User_update st values pid of
                             Inl ex \<Rightarrow> \<lparr>db = st, sent = res1, calls = cs2, rejected = Some ex\<rparr>
                           | Inr (n, st') \<Rightarrow>
                               (case send 200 [(''accessToken'', Scalar (Str accessToken)),
                                               (''refreshToken'', Scalar (Str newRefreshToken))]
                                       res1 of
                                  Inl ex \<Rightarrow>
                                    \<lparr>db = st', sent = res1, calls = cs2, rejected = Some ex\<rparr>
                                | Inr res2 \<Rightarrow>
                                    \<lparr>db = st', sent = res2, calls = cs2, rejected = None\<rparr>)))))"

definition refreshToken :: "env \<Rightarrow> store \<Rightarrow> obj \<Rightarrow> outcome" where
  "refreshToken env st body =
     (let token = map_of body ''refreshToken'';
          res = (if falsy token
                 then Some \<lparr>status = 401,
                            content = [(''message'', Scalar (Str ''Refresh token required''))]\<rparr>
                 else None);
          t = refresh_try env st token res
      in case rejected t of
           None \<Rightarrow> t
         | Some error \<Rightarrow>
             (case send 403 [(''message'', Scalar (Str ''Invalid or expired refresh token''))] (sent t) of
                Inl ex \<Rightarrow> t\<lparr>rejected := Some ex\<rparr>
              | Inr res' \<Rightarrow> t\<lparr>sent := res', rejected := None\<rparr>))"

section \<open>A codec and a hasher for the examples\<close>

text \<open>
  The examples below run the handlers with a stand-in for the libraries: the hash of a
  password is the password behind a fixed prefix, the tokens of a claim set are named
  after its role, and the verifier knows two refresh tokens of the user with id 1.
\<close>

definition demo_tokens :: "obj \<Rightarrow> exn + string \<times> string" where
  "demo_tokens claims =
     (case map_of claims ''role'' of
        Some (Str r) \<Rightarrow> Inr (''access.'' @ r, ''refresh.'' @ r)
      | _ \<Rightarrow> Inr (''access'', ''refresh''))"

definition demo_verify :: "string \<Rightarrow> obj option" where
  "demo_verify t =
     (if t = ''refresh.user''
      then Some [(''id'', Num 1), (''name'', Str ''Ann''), (''email'', Str ''a@b.com''),
                 (''role'', Str ''user'')]
      else if t = ''refresh.old''
      then Some [(''id'', Num 1), (''name'', Str ''Ann''), (''email'', Str ''a@b.com''),
                 (''role'', Str ''guest'')]
      else None)"

definition demo_env :: env where
  "demo_env =
     \<lparr>bcrypt_hash = (\<lambda>p. ''$2a$10$'' @ p),
      bcrypt_compare = (\<lambda>p h. h = ''$2a$10$'' @ p),
      jwt_verify = demo_verify,
      generateTokens = demo_tokens\<rparr>"

definition empty_store :: store where
  "empty_store = \<lparr>rows = [], next_id = 1, roles = [''user'', ''admin''], default_role = ''user''\<rparr>"

text \<open>
  A user of the examples: registered as \<open>a@b.com\<close>, since promoted to \<open>admin\<close>, whose
  current refresh token was issued when the role was still \<open>user\<close>.
\<close>

definition ann :: obj where
  "ann = [(''id'', Num 1), (''name'', Str ''Ann''), (''email'', Str ''a@b.com''),
          (''password'', Str ''$2a$10$secret123''), (''role'', Str ''admin''),
          (''refreshToken'', Str ''refresh.user'')]"

definition ann_store :: store where
  "ann_store = \<lparr>rows = [ann], next_id = 2, roles = [''user'', ''admin''], default_role = ''user''\<rparr>"

text \<open>The claim set \<^verbatim>\<open>login\<close> and \<^verbatim>\<open>socialLogin\<close> build from a row (\<^verbatim>\<open>userForToken\<close>).\<close>

definition claims_of :: "obj \<Rightarrow> obj" where
  "claims_of user = object
     [(''id'', map_of user ''id''), (''name'', map_of user ''name''),
      (''email'', map_of user ''email''), (''role'', map_of user ''role'')]"

text \<open>The emails in the table, row by row, and the number of rows with a given email.\<close>

definition emails :: "store \<Rightarrow> val option list" where
  "emails st = map (\<lambda>r. map_of r ''email'') (rows st)"

definition count_email :: "string \<Rightarrow> store \<Rightarrow> nat" where
  "count_email e st = length (filter (\<lambda>r. map_of r ''email'' = Some (Str e)) (rows st))"

text \<open>
  A second request, registering \<open>a@b.com\<close>, that runs from its start to its end while
  another registration is suspended.
\<close>

definition concurrent_register :: "store \<Rightarrow> store" where
  "concurrent_register st =
     db (register demo_env st [(''email'', Str ''a@b.com''), (''password'', Str ''other'')])"

section \<open>Unfolding the model\<close>

lemmas handler_defs = register_with_def register_def login_def socialLogin_def refreshToken_def
  refresh_try_def reply_def reject_def send_def created_values_def

lemmas store_defs = User_findOne_def User_findByPk_def User_create_def User_update_def
  User_findOrCreate_def new_row_def initial_def role_ok_def user_attributes_def conflicts_def
  AList.merge_def AList.delete_eq

lemmas lib_defs = hash_password_def compare_password_def verify_def

lemmas string_defs = trim_def toLowerCase_def lower_char_def is_space_def

lemmas demo_defs = demo_env_def demo_tokens_def demo_verify_def empty_store_def ann_def
  ann_store_def claims_of_def emails_def count_email_def concurrent_register_def

lemmas eval_defs = handler_defs store_defs lib_defs string_defs demo_defs Let_def

section \<open>Facts about the table\<close>

lemma find_append_None: "find P xs = None \<Longrightarrow> find P (xs @ ys) = find P ys"
  by (induction xs) (auto split: if_splits)

lemma find_None_filter: "find P xs = None \<Longrightarrow> filter P xs = []"
  by (induction xs) (auto split: if_splits)

lemma User_create_Inr:
  "User_create st v = Inr (row, st') \<Longrightarrow>
     row = new_row st v \<and> rows st' = rows st @ [row] \<and> next_id st' = next_id st + 1 \<and>
     role_ok st v"
  by (auto simp: User_create_def Let_def split: if_splits)

lemma map_of_new_row:
  "map_of (new_row st v) k =
     (if k \<in> set user_attributes
      then Some (case map_of v k of None \<Rightarrow> initial st k | Some x \<Rightarrow> x)
      else None)"
  by (simp add: new_row_def map_of_map_restrict restrict_map_def)

lemma map_of_created_values:
  "map_of (created_values b e h) k =
     (if k = ''password'' then Some (Str h) else if k = ''email'' then Some (Str e) else map_of b k)"
  by (simp add: created_values_def AList.update_conv')

section \<open>What the handlers do, in general\<close>

text \<open>
  A registration answered with 201 read a string email and a string password, found no
  row with the normalized email, and created the row it answers with.
\<close>

lemma register_with_created:
  assumes "sent (register_with others env st b) = Some r" and "status r = 201"
  shows "\<exists>e p st'. map_of b ''email'' = Some (Str e) \<and> map_of b ''password'' = Some (Str p) \<and>
     find (\<lambda>r. map_of r ''email'' = Some (Str (toLowerCase (trim e)))) (rows st) = None \<and>
     User_create (others st) (created_values b (toLowerCase (trim e)) (bcrypt_hash env p)) =
        Inr (new_row (others st) (created_values b (toLowerCase (trim e)) (bcrypt_hash env p)), st') \<and>
     register_with others env st b =
       reply st' [FindOne (Some (Str (toLowerCase (trim e)))),
                  Create (created_values b (toLowerCase (trim e)) (bcrypt_hash env p))] 201
         [(''message'', Scalar (Str ''User created successfully'')),
          (''user'', Object (AList.delete ''password''
             (new_row (others st) (created_values b (toLowerCase (trim e)) (bcrypt_hash env p)))))]"
proof -
  from assms obtain e where e: "map_of b ''email'' = Some (Str e)"
    by (auto simp: register_with_def reject_def split: option.splits val.splits)
  from assms e obtain p where p: "map_of b ''password'' = Some (Str p)"
    by (auto simp: register_with_def reject_def hash_password_def Let_def
        split: option.splits val.splits)
  let ?v = "created_values b (toLowerCase (trim e)) (bcrypt_hash env p)"
  from assms e p have none:
    "find (\<lambda>r. map_of r ''email'' = Some (Str (toLowerCase (trim e)))) (rows st) = None"
    by (auto simp: register_with_def reply_def hash_password_def User_findOne_def Let_def
        split: option.splits)
  from assms e p none obtain row st' where cr: "User_create (others st) ?v = Inr (row, st')"
    by (auto simp: register_with_def reply_def hash_password_def User_findOne_def Let_def
        split: sum.splits)
  from User_create_Inr[OF cr] have row: "row = new_row (others st) ?v"
    by simp
  have "register_with others env st b =
       reply st' [FindOne (Some (Str (toLowerCase (trim e)))), Create ?v] 201
         [(''message'', Scalar (Str ''User created successfully'')),
          (''user'', Object (AList.delete ''password'' (new_row (others st) ?v)))]"
    using e p none cr row
    by (simp add: register_with_def hash_password_def User_findOne_def Let_def)
  with e p none cr row show ?thesis by blast
qed

text \<open>A registration whose normalized email is in the table is answered with 400.\<close>

lemma register_with_existing:
  assumes "map_of b ''email'' = Some (Str e)" and "map_of b ''password'' = Some (Str p)"
    and "find (\<lambda>r. map_of r ''email'' = Some (Str (toLowerCase (trim e')))) (rows st) = Some u"
    and "toLowerCase (trim e) = toLowerCase (trim e')"
  shows "register_with others env st b =
     reply st [FindOne (Some (Str (toLowerCase (trim e'))))] 400
       [(''error'', Scalar (Str ''User with this email already exists''))]"
  using assms by (simp add: register_with_def hash_password_def User_findOne_def Let_def)

text \<open>
  Whatever the body, a refresh call with a token that JavaScript takes for false answers
  401 and then hands the token to \<^verbatim>\<open>jwt.verify\<close>, which throws; the answer of the
  \<^verbatim>\<open>catch\<close> throws in turn.
\<close>

lemma refresh_falsy_token:
  assumes "falsy (map_of body ''refreshToken'')"
  shows "refreshToken env st body =
    \<lparr>db = st,
     sent = Some \<lparr>status = 401, content = [(''message'', Scalar (Str ''Refresh token required''))]\<rparr>,
     calls = [JwtVerify (map_of body ''refreshToken'')],
     rejected = Some HeadersSent\<rparr>"
proof -
  from assms have "verify env (map_of body ''refreshToken'') = Inl JsonWebTokenError"
    by (cases "map_of body ''refreshToken''" rule: falsy.cases) (simp_all add: verify_def)
  with assms show ?thesis
    by (simp add: refreshToken_def refresh_try_def send_def Let_def)
qed

text \<open>
  A refresh call whose token verifies and differs from the token stored for the
  payload's id answers 403 and then calls \<^verbatim>\<open>generateTokens\<close> on the payload all the same;
  when that returns a pair, its refresh half is written to the table.
\<close>

lemma refresh_mismatch_rotates:
  assumes "map_of body ''refreshToken'' = Some (Str t)" and "t \<noteq> []"
    and "jwt_verify env t = Some p" and "map_of p ''id'' = Some i"
    and "(case User_findByPk st (Some i) of None \<Rightarrow> None | Some r \<Rightarrow> map_of r ''refreshToken'')
           \<noteq> Some (Str t)"
    and "generateTokens env p = Inr (a, t')"
    and "User_update st [(''refreshToken'', Str t')] (Some i) = Inr (n, st')"
  shows "refreshToken env st body =
    \<lparr>db = st',
     sent = Some \<lparr>status = 403, content = [(''message'', Scalar (Str ''Invalid refresh token''))]\<rparr>,
     calls = [JwtVerify (Some (Str t)), FindByPk (Some i), GenerateTokens p,
              Update [(''refreshToken'', Str t')] (Some i)],
     rejected = Some HeadersSent\<rparr>"
  using assms
  by (simp add: refreshToken_def refresh_try_def send_def verify_def Let_def)

text \<open>
  \<^verbatim>\<open>login\<close> never changes the attribute \<open>refreshToken\<close> of a row: what it writes, it
  writes to \<open>refresh_token\<close>.
\<close>

lemma login_leaves_refreshToken:
  "map (\<lambda>r. map_of r ''refreshToken'') (rows (db (login env st body))) =
   map (\<lambda>r. map_of r ''refreshToken'') (rows st)"
  by (auto simp: login_def reply_def Let_def User_update_def AList.update_conv'
      split: sum.splits option.splits prod.splits)

section \<open>The claims\<close>

text \<open>
  C1. Claim: a refresh call whose token verifies but is not the token stored on the
  record of its id fails with the replay error, issues no new pair and writes nothing.
  The handler does answer 403 \<^verbatim>\<open>Invalid refresh token\<close>, but it does not return: here
  Ann's current token is \<open>refresh.user\<close> and the superseded \<open>refresh.old\<close> is presented;
  a pair is generated from the old payload and its refresh half replaces Ann's current
  token in the table.
\<close>

theorem refresh_replay_still_writes:
  "refreshToken demo_env ann_store [(''refreshToken'', Str ''refresh.old'')] =
     \<lparr>db = \<lparr>rows = [AList.update ''refreshToken'' (Str ''refresh.guest'') ann], next_id = 2,
             roles = [''user'', ''admin''], default_role = ''user''\<rparr>,
      sent = Some \<lparr>status = 403,
                   content = [(''message'', Scalar (Str ''Invalid refresh token''))]\<rparr>,
      calls = [JwtVerify (Some (Str ''refresh.old'')), FindByPk (Some (Num 1)),
               GenerateTokens [(''id'', Num 1), (''name'', Str ''Ann''),
                               (''email'', Str ''a@b.com''), (''role'', Str ''guest'')],
               Update [(''refreshToken'', Str ''refresh.guest'')] (Some (Num 1))],
      rejected = Some HeadersSent\<rparr>"
  by (simp add: eval_defs)

text \<open>
  C2. Claim: the refresh half of the pair a successful login returns is accepted by an
  immediate refresh, login having stored it in the field refresh compares against.
  \<^verbatim>\<open>login\<close> writes the attribute \<open>refresh_token\<close> and \<^verbatim>\<open>refreshToken\<close> reads the
  attribute \<open>refreshToken\<close>: a user registers, logs in with the same password and
  presents the refresh token just received, and is answered 403.
\<close>

theorem login_then_refresh_rejected:
  "sent (login demo_env
           (db (register demo_env empty_store
                  [(''name'', Str ''Ann''), (''email'', Str ''a@b.com''),
                   (''password'', Str ''secret123'')]))
           [(''email'', Str ''a@b.com''), (''password'', Str ''secret123'')]) =
     Some \<lparr>status = 200,
           content = [(''message'', Scalar (Str ''Login successful'')),
                      (''accessToken'', Scalar (Str ''access.user'')),
                      (''refreshToken'', Scalar (Str ''refresh.user''))]\<rparr>
   \<and> rows (db (login demo_env
           (db (register demo_env empty_store
                  [(''name'', Str ''Ann''), (''email'', Str ''a@b.com''),
                   (''password'', Str ''secret123'')]))
           [(''email'', Str ''a@b.com''), (''password'', Str ''secret123'')])) =
     [[(''id'', Num 1), (''name'', Str ''Ann''), (''email'', Str ''a@b.com''),
       (''password'', Str ''$2a$10$secret123''), (''role'', Str ''user''),
       (''refreshToken'', Null), (''refresh_token'', Str ''refresh.user'')]]
   \<and> sent (refreshToken demo_env
           (db (login demo_env
                  (db (register demo_env empty_store
                         [(''name'', Str ''Ann''), (''email'', Str ''a@b.com''),
                          (''password'', Str ''secret123'')]))
                  [(''email'', Str ''a@b.com''), (''password'', Str ''secret123'')]))
           [(''refreshToken'', Str ''refresh.user'')]) =
     Some \<lparr>status = 403,
           content = [(''message'', Scalar (Str ''Invalid refresh token''))]\<rparr>"
  by (simp add: eval_defs)

text \<open>
  C3. Claim: a refresh call with no token fails with the missing-token error before
  anything else happens; in particular no verification is attempted. The handler
  answers 401 and goes on: it calls \<^verbatim>\<open>jwt.verify\<close> on the missing token. That call
  throws, so the table is neither read nor written, and the second answer, from the
  \<^verbatim>\<open>catch\<close>, throws.
\<close>

theorem refresh_without_token_still_verifies:
  "refreshToken env st [] =
     \<lparr>db = st,
      sent = Some \<lparr>status = 401,
                   content = [(''message'', Scalar (Str ''Refresh token required''))]\<rparr>,
      calls = [JwtVerify None],
      rejected = Some HeadersSent\<rparr>"
  using refresh_falsy_token [of "[]" env st] by simp

text \<open>
  C4. Claim: register, login and social login all normalize the email before they look
  a user up or write one. Only \<^verbatim>\<open>register\<close> does. A user registers as \<open>A@B.com\<close>,
  which is stored as \<open>a@b.com\<close>; the login with the very same email and password is
  answered 404, and the social login with it creates a second row.
\<close>

theorem login_email_not_normalized:
  "sent (login demo_env
           (db (register demo_env empty_store
                  [(''email'', Str ''A@B.com''), (''password'', Str ''secret123'')]))
           [(''email'', Str ''A@B.com''), (''password'', Str ''secret123'')]) =
     Some \<lparr>status = 404, content = [(''error'', Scalar (Str ''User not found''))]\<rparr>
   \<and> emails (db (socialLogin demo_env
           (db (register demo_env empty_store
                  [(''email'', Str ''A@B.com''), (''password'', Str ''secret123'')]))
           [(''email'', Str ''A@B.com''), (''name'', Str ''Ann'')])) =
     [Some (Str ''a@b.com''), Some (Str ''A@B.com'')]"
  by (simp add: eval_defs)

text \<open>
  C5. Claim: a login with an unknown email and a login with a known email and a wrong
  password fail alike. They do not: against the table holding Ann, the first is
  answered 404 \<^verbatim>\<open>User not found\<close> and the second 401 \<^verbatim>\<open>Invalid credentials\<close>.
\<close>

theorem login_failures_distinguishable:
  "sent (login demo_env ann_store [(''email'', Str ''nobody@b.com''), (''password'', Str ''wrong'')])
     = Some \<lparr>status = 404, content = [(''error'', Scalar (Str ''User not found''))]\<rparr>
   \<and> sent (login demo_env ann_store [(''email'', Str ''a@b.com''), (''password'', Str ''wrong'')])
     = Some \<lparr>status = 401, content = [(''error'', Scalar (Str ''Invalid credentials''))]\<rparr>
   \<and> sent (login demo_env ann_store [(''email'', Str ''nobody@b.com''), (''password'', Str ''wrong'')])
     \<noteq> sent (login demo_env ann_store [(''email'', Str ''a@b.com''), (''password'', Str ''wrong'')])"
  by (simp add: eval_defs)

text \<open>
  C5, as amended: a login whose email matches no row is answered 404 with the message
  \<^verbatim>\<open>User not found\<close>; a login whose email matches a row and whose password does not
  match the stored hash is answered 401 with the message \<^verbatim>\<open>Invalid credentials\<close>.
\<close>

theorem login_failure_responses:
  "(User_findOne st (map_of body ''email'') = Inr None \<longrightarrow>
      sent (login env st body) =
        Some \<lparr>status = 404, content = [(''error'', Scalar (Str ''User not found''))]\<rparr>) \<and>
   (User_findOne st (map_of body ''email'') = Inr (Some user) \<and>
    compare_password env (map_of body ''password'') (map_of user ''password'') = Inr False \<longrightarrow>
      sent (login env st body) =
        Some \<lparr>status = 401, content = [(''error'', Scalar (Str ''Invalid credentials''))]\<rparr>)"
  by (simp add: login_def reply_def Let_def)

theorem login_failure_responses_witness:
  "User_findOne ann_store (map_of [(''email'', Str ''nobody@b.com''), (''password'', Str ''wrong'')] ''email'')
     = Inr None
   \<and> sent (login demo_env ann_store [(''email'', Str ''nobody@b.com''), (''password'', Str ''wrong'')])
     = Some \<lparr>status = 404, content = [(''error'', Scalar (Str ''User not found''))]\<rparr>
   \<and> User_findOne ann_store (map_of [(''email'', Str ''a@b.com''), (''password'', Str ''wrong'')] ''email'')
     = Inr (Some ann)
   \<and> compare_password demo_env
        (map_of [(''email'', Str ''a@b.com''), (''password'', Str ''wrong'')] ''password'')
        (map_of ann ''password'') = Inr False
   \<and> sent (login demo_env ann_store [(''email'', Str ''a@b.com''), (''password'', Str ''wrong'')])
     = Some \<lparr>status = 401, content = [(''error'', Scalar (Str ''Invalid credentials''))]\<rparr>"
proof -
  have none: "User_findOne ann_store
      (map_of [(''email'', Str ''nobody@b.com''), (''password'', Str ''wrong'')] ''email'') = Inr None"
    by (simp add: store_defs demo_defs)
  have found: "User_findOne ann_store
      (map_of [(''email'', Str ''a@b.com''), (''password'', Str ''wrong'')] ''email'') = Inr (Some ann)"
    by (simp add: store_defs demo_defs)
  have wrong: "compare_password demo_env
        (map_of [(''email'', Str ''a@b.com''), (''password'', Str ''wrong'')] ''password'')
        (map_of ann ''password'') = Inr False"
    by (simp add: lib_defs demo_defs)
  from none found wrong
    login_failure_responses [where st = ann_store and env = demo_env and user = ann
      and body = "[(''email'', Str ''nobody@b.com''), (''password'', Str ''wrong'')]"]
    login_failure_responses [where st = ann_store and env = demo_env and user = ann
      and body = "[(''email'', Str ''a@b.com''), (''password'', Str ''wrong'')]"]
  show ?thesis by blast
qed

text \<open>
  C6. Claim: the pair a successful refresh returns is derived from the record just
  fetched. It is derived from the payload of the presented token: Ann's record has the
  role \<open>admin\<close>, her token was issued for the role \<open>user\<close>, and the new pair is the one
  for \<open>user\<close>, not the one for the claims of her record.
\<close>

theorem refresh_claims_not_from_record:
  "sent (refreshToken demo_env ann_store [(''refreshToken'', Str ''refresh.user'')]) =
     Some \<lparr>status = 200,
           content = [(''accessToken'', Scalar (Str ''access.user'')),
                      (''refreshToken'', Scalar (Str ''refresh.user''))]\<rparr>
   \<and> User_findByPk ann_store (Some (Num 1)) = Some ann
   \<and> generateTokens demo_env (claims_of ann) = Inr (''access.admin'', ''refresh.admin'')"
  by (simp add: eval_defs)

text \<open>
  C6, as amended: the pair a successful refresh returns is \<^verbatim>\<open>generateTokens\<close> of the
  payload that \<^verbatim>\<open>jwt.verify\<close> decoded from the presented token.
\<close>

theorem refresh_tokens_from_payload:
  assumes "sent (refreshToken env st body) = Some r" and "status r = 200"
  shows "\<exists>t p a t'. map_of body ''refreshToken'' = Some (Str t) \<and> jwt_verify env t = Some p \<and>
     generateTokens env p = Inr (a, t') \<and>
     content r = [(''accessToken'', Scalar (Str a)), (''refreshToken'', Scalar (Str t'))]"
  using assms
  by (auto simp: refreshToken_def refresh_try_def send_def verify_def Let_def
      split: sum.splits option.splits if_splits prod.splits val.splits)

theorem refresh_tokens_from_payload_witness:
  "sent (refreshToken demo_env ann_store [(''refreshToken'', Str ''refresh.user'')]) =
     Some \<lparr>status = 200,
           content = [(''accessToken'', Scalar (Str ''access.user'')),
                      (''refreshToken'', Scalar (Str ''refresh.user''))]\<rparr>
   \<and> (\<exists>t p a t'. map_of [(''refreshToken'', Str ''refresh.user'')] ''refreshToken'' = Some (Str t) \<and>
        jwt_verify demo_env t = Some p \<and>
        generateTokens demo_env p = Inr (a, t') \<and>
        [(''accessToken'', Scalar (Str ''access.user'')),
         (''refreshToken'', Scalar (Str ''refresh.user''))] =
        [(''accessToken'', Scalar (Str a)), (''refreshToken'', Scalar (Str t'))])"
proof -
  have s: "sent (refreshToken demo_env ann_store [(''refreshToken'', Str ''refresh.user'')]) =
     Some \<lparr>status = 200,
           content = [(''accessToken'', Scalar (Str ''access.user'')),
                      (''refreshToken'', Scalar (Str ''refresh.user''))]\<rparr>"
    by (simp add: eval_defs)
  from refresh_tokens_from_payload [OF s] s show ?thesis by simp
qed

text \<open>
  C7. Claim: a registration whose create hits the uniqueness constraint, the existence
  check having raced, fails as a duplicate email. Here two requests register the same
  email; the second runs to its end between the existence check and the create of the
  first. The create of the first violates the constraint, and the first is answered
  with the generic status 500, not with the status 400 of an existing email.
\<close>

theorem register_race_generic_error:
  "User_findOne empty_store (Some (Str ''a@b.com'')) = Inr None
   \<and> User_create
        (concurrent_register empty_store)
        (created_values [(''email'', Str ''A@b.com ''), (''password'', Str ''secret123'')]
           ''a@b.com'' ''$2a$10$secret123'') = Inl UniqueConstraintError
   \<and> sent (register_with
              concurrent_register demo_env empty_store
              [(''email'', Str ''A@b.com ''), (''password'', Str ''secret123'')]) =
       Some \<lparr>status = 500,
             content = [(''error'', Scalar (Str ''An error occurred while creating the user''))]\<rparr>
   \<and> sent (register_with
              concurrent_register demo_env empty_store
              [(''email'', Str ''A@b.com ''), (''password'', Str ''secret123'')]) \<noteq>
       Some \<lparr>status = 400,
             content = [(''error'', Scalar (Str ''User with this email already exists''))]\<rparr>"
  by (simp add: eval_defs)

text \<open>
  C7, as amended: a registration whose create hits the uniqueness constraint is answered
  500 with the generic message, and creates no row. Two registrations in sequence with
  the same normalized email, the first answered 201: the second is answered 400
  \<^verbatim>\<open>User with this email already exists\<close> and leaves the table as it was, with exactly
  one row of that email.
\<close>

theorem register_conflict_responses:
  "(map_of b ''email'' = Some (Str e) \<and> map_of b ''password'' = Some (Str p) \<and>
    User_findOne st (Some (Str (toLowerCase (trim e)))) = Inr None \<and>
    User_create (others st) (created_values b (toLowerCase (trim e)) (bcrypt_hash env p)) = Inl ex
    \<longrightarrow> sent (register_with others env st b) =
          Some \<lparr>status = 500,
                content = [(''error'', Scalar (Str ''An error occurred while creating the user''))]\<rparr>
        \<and> db (register_with others env st b) = others st)
   \<and>
   (sent (register env st b1) = Some r1 \<and> status r1 = 201 \<and>
    map_of b1 ''email'' = Some (Str e1) \<and> map_of b2 ''email'' = Some (Str e2) \<and>
    toLowerCase (trim e2) = toLowerCase (trim e1) \<and> map_of b2 ''password'' = Some (Str p2)
    \<longrightarrow> register env (db (register env st b1)) b2 =
          reply (db (register env st b1)) [FindOne (Some (Str (toLowerCase (trim e1))))] 400
            [(''error'', Scalar (Str ''User with this email already exists''))]
        \<and> count_email (toLowerCase (trim e1)) (db (register env st b1)) = 1)"
proof (intro conjI impI)
  assume a: "map_of b ''email'' = Some (Str e) \<and> map_of b ''password'' = Some (Str p) \<and>
    User_findOne st (Some (Str (toLowerCase (trim e)))) = Inr None \<and>
    User_create (others st) (created_values b (toLowerCase (trim e)) (bcrypt_hash env p)) = Inl ex"
  then show "sent (register_with others env st b) =
      Some \<lparr>status = 500,
            content = [(''error'', Scalar (Str ''An error occurred while creating the user''))]\<rparr>"
    by (simp add: register_with_def hash_password_def reply_def Let_def)
  from a show "db (register_with others env st b) = others st"
    by (simp add: register_with_def hash_password_def reply_def Let_def)
next
  assume a: "sent (register env st b1) = Some r1 \<and> status r1 = 201 \<and>
    map_of b1 ''email'' = Some (Str e1) \<and> map_of b2 ''email'' = Some (Str e2) \<and>
    toLowerCase (trim e2) = toLowerCase (trim e1) \<and> map_of b2 ''password'' = Some (Str p2)"
  let ?n = "toLowerCase (trim e1)"
  from a have s: "sent (register_with (\<lambda>st. st) env st b1) = Some r1" "status r1 = 201"
    by (simp_all add: register_def)
  from register_with_created [OF s] a
  obtain p1 st' where none: "find (\<lambda>r. map_of r ''email'' = Some (Str ?n)) (rows st) = None"
    and cr: "User_create st (created_values b1 ?n (bcrypt_hash env p1)) =
               Inr (new_row st (created_values b1 ?n (bcrypt_hash env p1)), st')"
    and out: "db (register env st b1) = st'"
    by (auto simp: register_def reply_def)
  let ?row = "new_row st (created_values b1 ?n (bcrypt_hash env p1))"
  have em: "map_of ?row ''email'' = Some (Str ?n)"
    by (simp add: map_of_new_row map_of_created_values user_attributes_def)
  from User_create_Inr [OF cr] have rws: "rows st' = rows st @ [?row]"
    by simp
  have found: "find (\<lambda>r. map_of r ''email'' = Some (Str ?n)) (rows st') = Some ?row"
    by (simp add: rws find_append_None [OF none] em)
  have "register env st' b2 = reply st' [FindOne (Some (Str ?n))] 400
            [(''error'', Scalar (Str ''User with this email already exists''))]"
    unfolding register_def using a
    by (simp add: register_with_existing [OF _ _ found, of b2 e2 p2])
  then show "register env (db (register env st b1)) b2 =
          reply (db (register env st b1)) [FindOne (Some (Str ?n))] 400
            [(''error'', Scalar (Str ''User with this email already exists''))]"
    by (simp only: out)
  show "count_email ?n (db (register env st b1)) = 1"
    by (simp add: count_email_def out rws find_None_filter [OF none] em)
qed

theorem register_conflict_responses_witness:
  "User_findOne empty_store (Some (Str (toLowerCase (trim ''A@b.com '')))) = Inr None
   \<and> User_create
        (concurrent_register empty_store)
        (created_values [(''email'', Str ''A@b.com ''), (''password'', Str ''secret123'')]
           (toLowerCase (trim ''A@b.com '')) (bcrypt_hash demo_env ''secret123''))
       = Inl UniqueConstraintError
   \<and> sent (register_with
              concurrent_register demo_env empty_store
              [(''email'', Str ''A@b.com ''), (''password'', Str ''secret123'')]) =
       Some \<lparr>status = 500,
             content = [(''error'', Scalar (Str ''An error occurred while creating the user''))]\<rparr>
   \<and> status (the (sent (register demo_env empty_store
                [(''email'', Str '' A@B.com ''), (''password'', Str ''secret123'')]))) = 201
   \<and> sent (register demo_env
             (db (register demo_env empty_store
                    [(''email'', Str '' A@B.com ''), (''password'', Str ''secret123'')]))
             [(''email'', Str ''a@b.com''), (''password'', Str ''secret123'')]) =
       Some \<lparr>status = 400,
             content = [(''error'', Scalar (Str ''User with this email already exists''))]\<rparr>
   \<and> count_email ''a@b.com''
        (db (register demo_env
             (db (register demo_env empty_store
                    [(''email'', Str '' A@B.com ''), (''password'', Str ''secret123'')]))
             [(''email'', Str ''a@b.com''), (''password'', Str ''secret123'')])) = 1"
proof -
  let ?others = concurrent_register
  let ?b = "[(''email'', Str ''A@b.com ''), (''password'', Str ''secret123'')]"
  let ?b1 = "[(''email'', Str '' A@B.com ''), (''password'', Str ''secret123'')]"
  let ?b2 = "[(''email'', Str ''a@b.com''), (''password'', Str ''secret123'')]"
  have h1: "map_of ?b ''email'' = Some (Str ''A@b.com '') \<and>
      map_of ?b ''password'' = Some (Str ''secret123'') \<and>
      User_findOne empty_store (Some (Str (toLowerCase (trim ''A@b.com '')))) = Inr None \<and>
      User_create (?others empty_store)
        (created_values ?b (toLowerCase (trim ''A@b.com '')) (bcrypt_hash demo_env ''secret123''))
        = Inl UniqueConstraintError"
    by (simp add: eval_defs)
  have h2: "sent (register demo_env empty_store ?b1) =
       Some \<lparr>status = 201,
             content = [(''message'', Scalar (Str ''User created successfully'')),
                        (''user'', Object [(''id'', Num 1), (''name'', Null),
                                         (''email'', Str ''a@b.com''), (''role'', Str ''user''),
                                         (''refreshToken'', Null)])]\<rparr>"
    by (simp add: eval_defs)
  have n: "toLowerCase (trim ''a@b.com'') = toLowerCase (trim '' A@B.com '')"
      "toLowerCase (trim '' A@B.com '') = ''a@b.com''"
    by (simp_all add: string_defs)
  from h1 h2 n
    register_conflict_responses [where b = ?b and e = "''A@b.com ''" and p = "''secret123''"
      and st = empty_store and others = ?others and env = demo_env and ex = UniqueConstraintError
      and ?b1.0 = ?b1 and ?b2.0 = ?b2 and ?e1.0 = "'' A@B.com ''" and ?e2.0 = "''a@b.com''"
      and ?p2.0 = "''secret123''"
      and ?r1.0 = "\<lparr>status = 201,
             content = [(''message'', Scalar (Str ''User created successfully'')),
                        (''user'', Object [(''id'', Num 1), (''name'', Null),
                                         (''email'', Str ''a@b.com''), (''role'', Str ''user''),
                                         (''refreshToken'', Null)])]\<rparr>"]
  show ?thesis by (simp add: reply_def)
qed

text \<open>
  C8. The payload of a registration answered 201 and the payload of a login answered
  200 have no field \<open>password\<close>, neither at the top nor inside the \<open>user\<close> they carry.
\<close>

theorem success_payload_no_password:
  "(sent (register_with others env st b) = Some r \<and> status r = 201 \<longrightarrow>
      \<not> has_field ''password'' (content r)) \<and>
   (sent (login env st b') = Some r' \<and> status r' = 200 \<longrightarrow>
      \<not> has_field ''password'' (content r'))"
proof (intro conjI impI)
  assume "sent (register_with others env st b) = Some r \<and> status r = 201"
  then have s: "sent (register_with others env st b) = Some r" "status r = 201"
    by simp_all
  from register_with_created [OF s] s(1) show "\<not> has_field ''password'' (content r)"
    by (auto simp: reply_def has_field_def AList.delete_notin_dom)
next
  assume "sent (login env st b') = Some r' \<and> status r' = 200"
  then show "\<not> has_field ''password'' (content r')"
    by (auto simp: login_def reply_def Let_def has_field_def
        split: sum.splits option.splits if_splits prod.splits)
qed

theorem success_payload_no_password_witness:
  "sent (register demo_env empty_store
           [(''email'', Str '' A@B.com ''), (''password'', Str ''secret123'')]) =
     Some \<lparr>status = 201,
           content = [(''message'', Scalar (Str ''User created successfully'')),
                      (''user'', Object [(''id'', Num 1), (''name'', Null),
                                         (''email'', Str ''a@b.com''), (''role'', Str ''user''),
                                         (''refreshToken'', Null)])]\<rparr>
   \<and> \<not> has_field ''password''
         [(''message'', Scalar (Str ''User created successfully'')),
          (''user'', Object [(''id'', Num 1), (''name'', Null),
                                         (''email'', Str ''a@b.com''), (''role'', Str ''user''),
                                         (''refreshToken'', Null)])]
   \<and> sent (login demo_env ann_store [(''email'', Str ''a@b.com''), (''password'', Str ''secret123'')]) =
     Some \<lparr>status = 200,
           content = [(''message'', Scalar (Str ''Login successful'')),
                      (''accessToken'', Scalar (Str ''access.admin'')),
                      (''refreshToken'', Scalar (Str ''refresh.admin''))]\<rparr>
   \<and> \<not> has_field ''password''
         [(''message'', Scalar (Str ''Login successful'')),
          (''accessToken'', Scalar (Str ''access.admin'')),
          (''refreshToken'', Scalar (Str ''refresh.admin''))]"
proof -
  have r: "sent (register_with (\<lambda>st. st) demo_env empty_store
           [(''email'', Str '' A@B.com ''), (''password'', Str ''secret123'')]) =
     Some \<lparr>status = 201,
           content = [(''message'', Scalar (Str ''User created successfully'')),
                      (''user'', Object [(''id'', Num 1), (''name'', Null),
                                         (''email'', Str ''a@b.com''), (''role'', Str ''user''),
                                         (''refreshToken'', Null)])]\<rparr>"
    by (simp add: eval_defs)
  have l: "sent (login demo_env ann_store [(''email'', Str ''a@b.com''), (''password'', Str ''secret123'')]) =
     Some \<lparr>status = 200,
           content = [(''message'', Scalar (Str ''Login successful'')),
                      (''accessToken'', Scalar (Str ''access.admin'')),
                      (''refreshToken'', Scalar (Str ''refresh.admin''))]\<rparr>"
    by (simp add: eval_defs)
  from r l
    success_payload_no_password [where others = "\<lambda>st. st" and env = demo_env
      and st = empty_store and b = "[(''email'', Str '' A@B.com ''), (''password'', Str ''secret123'')]"
      and r = "\<lparr>status = 201,
           content = [(''message'', Scalar (Str ''User created successfully'')),
                      (''user'', Object [(''id'', Num 1), (''name'', Null),
                                         (''email'', Str ''a@b.com''), (''role'', Str ''user''),
                                         (''refreshToken'', Null)])]\<rparr>"]
    success_payload_no_password [where env = demo_env and st = ann_store
      and b' = "[(''email'', Str ''a@b.com''), (''password'', Str ''secret123'')]"
      and r' = "\<lparr>status = 200,
           content = [(''message'', Scalar (Str ''Login successful'')),
                      (''accessToken'', Scalar (Str ''access.admin'')),
                      (''refreshToken'', Scalar (Str ''refresh.admin''))]\<rparr>"]
  show ?thesis by (simp add: register_def)
qed

text \<open>
  C9. Claim: the whole body of a registration is copied into the created record, only
  the email and the password being overridden, so that every extra field the caller
  sends, \<open>role\<close> included, is stored as it is, with no validation and no filtering.
  The controller does hand the whole body to \<^verbatim>\<open>User.create\<close>, but the record has the
  attributes of the user record and no other: Bob registers with a \<open>role\<close> and a \<open>nick\<close>,
  and the row created has his role and no \<open>nick\<close>. A role outside the enumeration is
  refused: the registration with the role \<open>root\<close> is answered 500 and stores nothing.
\<close>

theorem register_drops_unknown_field:
  "map_of [(''email'', Str '' Bob@B.com''), (''password'', Str ''hunter2''),
           (''role'', Str ''admin''), (''nick'', Str ''bob'')] ''nick'' = Some (Str ''bob'')
   \<and> calls (register demo_env ann_store
           [(''email'', Str '' Bob@B.com''), (''password'', Str ''hunter2''),
            (''role'', Str ''admin''), (''nick'', Str ''bob'')]) =
     [FindOne (Some (Str ''bob@b.com'')),
      Create [(''email'', Str ''bob@b.com''), (''password'', Str ''$2a$10$hunter2''),
              (''role'', Str ''admin''), (''nick'', Str ''bob'')]]
   \<and> rows (db (register demo_env ann_store
           [(''email'', Str '' Bob@B.com''), (''password'', Str ''hunter2''),
            (''role'', Str ''admin''), (''nick'', Str ''bob'')])) =
     [ann, [(''id'', Num 2), (''name'', Null), (''email'', Str ''bob@b.com''),
            (''password'', Str ''$2a$10$hunter2''), (''role'', Str ''admin''),
            (''refreshToken'', Null)]]
   \<and> map_of (last (rows (db (register demo_env ann_store
           [(''email'', Str '' Bob@B.com''), (''password'', Str ''hunter2''),
            (''role'', Str ''admin''), (''nick'', Str ''bob'')])))) ''nick'' = None
   \<and> register demo_env ann_store
           [(''email'', Str ''eve@b.com''), (''password'', Str ''hunter2''),
            (''role'', Str ''root'')] =
     reply ann_store
       [FindOne (Some (Str ''eve@b.com'')),
        Create [(''email'', Str ''eve@b.com''), (''password'', Str ''$2a$10$hunter2''),
                (''role'', Str ''root'')]] 500
       [(''error'', Scalar (Str ''An error occurred while creating the user''))]"
  by (simp add: eval_defs)

text \<open>
  C9, as amended: a registration answered 201 handed \<^verbatim>\<open>User.create\<close> the whole body, with
  only the email replaced by its normalized form and the password by its hash; the
  controller validates and filters nothing. The row created has exactly the attributes
  of the user record. Of the fields of the body, it keeps as the caller sent them those
  that are attributes (the \<open>id\<close>, the \<open>name\<close>, the \<open>refreshToken\<close> and the \<open>role\<close>, which
  is then one of the enumerated roles), and none of the others.
\<close>

theorem register_stores_attributes:
  assumes "sent (register_with others env st userData) = Some r" and "status r = 201"
    and "map_of userData ''email'' = Some (Str e)"
    and "map_of userData ''password'' = Some (Str p)"
    and "values = AList.update ''password'' (Str (bcrypt_hash env p))
                    (AList.update ''email'' (Str (toLowerCase (trim e))) userData)"
  shows "calls (register_with others env st userData) =
           [FindOne (Some (Str (toLowerCase (trim e)))), Create values] \<and>
         rows (db (register_with others env st userData)) =
           rows (others st) @ [new_row (others st) values] \<and>
         map fst (new_row (others st) values) = user_attributes \<and>
         (\<forall>k v. k \<in> set user_attributes \<and> k \<noteq> ''email'' \<and> k \<noteq> ''password'' \<and>
                map_of userData k = Some v \<longrightarrow>
            map_of (new_row (others st) values) k = Some v) \<and>
         (\<forall>k. k \<notin> set user_attributes \<longrightarrow> map_of (new_row (others st) values) k = None) \<and>
         role_ok (others st) userData \<and>
         (map_of userData ''role'' = None \<longrightarrow>
            map_of (new_row (others st) values) ''role'' = Some (Str (default_role (others st)))) \<and>
         map_of (new_row (others st) values) ''email'' = Some (Str (toLowerCase (trim e))) \<and>
         map_of (new_row (others st) values) ''password'' = Some (Str (bcrypt_hash env p))"
proof -
  have v: "values = created_values userData (toLowerCase (trim e)) (bcrypt_hash env p)"
    by (simp add: assms(5) created_values_def)
  from register_with_created [OF assms(1,2)] assms(3,4)
  obtain st' where cr: "User_create (others st) values = Inr (new_row (others st) values, st')"
    and out: "register_with others env st userData =
       reply st' [FindOne (Some (Str (toLowerCase (trim e)))), Create values] 201
         [(''message'', Scalar (Str ''User created successfully'')),
          (''user'', Object (AList.delete ''password'' (new_row (others st) values)))]"
    by (auto simp: v)
  from User_create_Inr [OF cr]
  have rws: "rows st' = rows (others st) @ [new_row (others st) values]"
    and ok: "role_ok (others st) values"
    by simp_all
  have role: "map_of values ''role'' = map_of userData ''role''"
    by (simp add: v map_of_created_values)
  have c1: "calls (register_with others env st userData) =
           [FindOne (Some (Str (toLowerCase (trim e)))), Create values]"
    and c2: "rows (db (register_with others env st userData)) =
           rows (others st) @ [new_row (others st) values]"
    using out rws by (simp_all add: reply_def)
  have c3: "map fst (new_row (others st) values) = user_attributes"
    by (simp add: new_row_def comp_def)
  have c4: "\<forall>k v. k \<in> set user_attributes \<and> k \<noteq> ''email'' \<and> k \<noteq> ''password'' \<and>
                map_of userData k = Some v \<longrightarrow>
            map_of (new_row (others st) values) k = Some v"
    by (simp add: map_of_new_row v map_of_created_values)
  have c5: "\<forall>k. k \<notin> set user_attributes \<longrightarrow> map_of (new_row (others st) values) k = None"
    by (simp add: map_of_new_row)
  have c6: "role_ok (others st) userData"
    using ok role by (simp add: role_ok_def)
  have c7: "map_of userData ''role'' = None \<longrightarrow>
            map_of (new_row (others st) values) ''role'' = Some (Str (default_role (others st)))"
    using role by (simp add: map_of_new_row user_attributes_def initial_def)
  have c8: "map_of (new_row (others st) values) ''email'' = Some (Str (toLowerCase (trim e)))"
    and c9: "map_of (new_row (others st) values) ''password'' = Some (Str (bcrypt_hash env p))"
    by (simp_all add: map_of_new_row user_attributes_def v map_of_created_values)
  from c1 c2 c3 c4 c5 c6 c7 c8 c9 show ?thesis
    by blast
qed

theorem register_stores_attributes_witness:
  "sent (register demo_env ann_store
           [(''email'', Str '' Bob@B.com''), (''password'', Str ''hunter2''),
            (''role'', Str ''admin''), (''nick'', Str ''bob'')]) =
     Some \<lparr>status = 201,
           content = [(''message'', Scalar (Str ''User created successfully'')),
                      (''user'', Object [(''id'', Num 2), (''name'', Null),
                                         (''email'', Str ''bob@b.com''), (''role'', Str ''admin''),
                                         (''refreshToken'', Null)])]\<rparr>
   \<and> calls (register demo_env ann_store
           [(''email'', Str '' Bob@B.com''), (''password'', Str ''hunter2''),
            (''role'', Str ''admin''), (''nick'', Str ''bob'')]) =
     [FindOne (Some (Str ''bob@b.com'')),
      Create [(''email'', Str ''bob@b.com''), (''password'', Str ''$2a$10$hunter2''),
              (''role'', Str ''admin''), (''nick'', Str ''bob'')]]
   \<and> rows (db (register demo_env ann_store
           [(''email'', Str '' Bob@B.com''), (''password'', Str ''hunter2''),
            (''role'', Str ''admin''), (''nick'', Str ''bob'')])) =
     [ann, [(''id'', Num 2), (''name'', Null), (''email'', Str ''bob@b.com''),
            (''password'', Str ''$2a$10$hunter2''), (''role'', Str ''admin''),
            (''refreshToken'', Null)]]"
proof -
  let ?b = "[(''email'', Str '' Bob@B.com''), (''password'', Str ''hunter2''),
             (''role'', Str ''admin''), (''nick'', Str ''bob'')]"
  let ?r = "\<lparr>status = 201,
           content = [(''message'', Scalar (Str ''User created successfully'')),
                      (''user'', Object [(''id'', Num 2), (''name'', Null),
                                         (''email'', Str ''bob@b.com''), (''role'', Str ''admin''),
                                         (''refreshToken'', Null)])]\<rparr>"
  have s: "sent (register_with (\<lambda>st. st) demo_env ann_store ?b) = Some ?r"
    by (simp add: eval_defs)
  have st: "status ?r = 201"
    by simp
  have e: "map_of ?b ''email'' = Some (Str '' Bob@B.com'')"
    and p: "map_of ?b ''password'' = Some (Str ''hunter2'')"
    by simp_all
  have n: "toLowerCase (trim '' Bob@B.com'') = ''bob@b.com''"
    by (simp add: string_defs)
  from register_stores_attributes [OF s st e p refl] s n
  show ?thesis
    by (simp add: register_def demo_defs new_row_def initial_def user_attributes_def)
qed

text \<open>
  C10. A refresh call whose token fails verification leaves the table as it was and
  calls nothing but \<^verbatim>\<open>jwt.verify\<close>: no row is read and none is written. When a token
  was presented, the call is answered 403 \<^verbatim>\<open>Invalid or expired refresh token\<close>.
\<close>

theorem refresh_invalid_token_no_write:
  assumes "verify env (map_of body ''refreshToken'') = Inl ex"
  shows "db (refreshToken env st body) = st \<and>
         calls (refreshToken env st body) = [JwtVerify (map_of body ''refreshToken'')] \<and>
         \<not> list_ex is_write (calls (refreshToken env st body)) \<and>
         \<not> list_ex is_lookup (calls (refreshToken env st body)) \<and>
         (\<not> falsy (map_of body ''refreshToken'') \<longrightarrow>
            sent (refreshToken env st body) =
              Some \<lparr>status = 403,
                    content = [(''message'', Scalar (Str ''Invalid or expired refresh token''))]\<rparr> \<and>
            rejected (refreshToken env st body) = None)"
  using assms by (simp add: refreshToken_def refresh_try_def send_def Let_def)

theorem refresh_invalid_token_no_write_witness:
  "verify demo_env (map_of [(''refreshToken'', Str ''expired'')] ''refreshToken'') = Inl JsonWebTokenError
   \<and> \<not> falsy (map_of [(''refreshToken'', Str ''expired'')] ''refreshToken'')
   \<and> refreshToken demo_env ann_store [(''refreshToken'', Str ''expired'')] =
       \<lparr>db = ann_store,
        sent = Some \<lparr>status = 403,
                     content = [(''message'', Scalar (Str ''Invalid or expired refresh token''))]\<rparr>,
        calls = [JwtVerify (Some (Str ''expired''))],
        rejected = None\<rparr>"
proof -
  have v: "verify demo_env (map_of [(''refreshToken'', Str ''expired'')] ''refreshToken'')
             = Inl JsonWebTokenError"
    by (simp add: lib_defs demo_defs)
  have f: "\<not> falsy (map_of [(''refreshToken'', Str ''expired'')] ''refreshToken'')"
    by simp
  from refresh_invalid_token_no_write [OF v, of ann_store] v f
  show ?thesis
    by (simp add: outcome.equality)
qed

end
